theory Spec2Isabelle
  imports Main "HOL-Library.Word"
begin

section \<open>Machine integers\<close>

text \<open>
  Every counter of \<^verbatim>\<open>class DungeonManager\<close> is a C++ \<^verbatim>\<open>int\<close>: a 32-bit word read
  in two's complement (\<open>sint\<close>), compared with the signed order. Arithmetic on a plain
  \<^verbatim>\<open>int\<close> that leaves the range has undefined behaviour; the model makes it a value,
  \<open>Inl SignedOverflow\<close>, and nothing is said about an execution from there on. The two
  \<^verbatim>\<open>std::atomic<int>\<close> totals are different: their \<^verbatim>\<open>++\<close> and \<^verbatim>\<open>+=\<close> are defined to wrap
  around, which is \<open>+\<close> on words. \<^verbatim>\<open>operator[]\<close> of a vector outside its size is
  undefined as well: \<open>Inl IndexOutOfRange\<close>. \<open>LengthError\<close> is the
  \<^verbatim>\<open>std::length_error\<close> that \<^verbatim>\<open>resize\<close> throws.
\<close>

type_synonym int32 = "32 word"

datatype error = SignedOverflow | IndexOutOfRange | LengthError

definition INT_MIN :: int where
  "INT_MIN = - 2147483648"

definition INT_MAX :: int where
  "INT_MAX = 2147483647"

definition in_range :: "int \<Rightarrow> bool" where
  "in_range i \<longleftrightarrow> INT_MIN \<le> i \<and> i \<le> INT_MAX"

definition int_add :: "int32 \<Rightarrow> int32 \<Rightarrow> error + int32" where
  "int_add a b = (if in_range (sint a + sint b) then Inr (a + b) else Inl SignedOverflow)"

definition int_sub :: "int32 \<Rightarrow> int32 \<Rightarrow> error + int32" where
  "int_sub a b = (if in_range (sint a - sint b) then Inr (a - b) else Inl SignedOverflow)"

section \<open>The manager\<close>

text \<open>
  The fields of the class, as \<^verbatim>\<open>dungeonManagerProducer.cpp\<close> declares them.
  \<^verbatim>\<open>dungeonManager.cpp\<close> is the same class without \<open>total_players_added\<close>,
  \<^verbatim>\<open>addPlayersToQueue\<close> and \<^verbatim>\<open>playerProducer\<close>; \<^verbatim>\<open>canFormParty\<close>, \<^verbatim>\<open>formParty\<close> and
  \<^verbatim>\<open>dungeonInstance\<close> are the same text in both files. The mutex, the condition
  variable and the generator are library objects: what the code does with them appears
  as events and as the points at which a step is taken.
\<close>

record DungeonManager =
  tank_queue :: int32
  healer_queue :: int32
  dps_queue :: int32
  dungeon_count :: int32
  dungeon_active :: "bool list"
  parties_served :: "int32 list"
  total_time_served :: "int32 list"
  total_parties_formed :: int32
  total_players_added :: int32
  shutdown :: bool

text \<open>
  The members as the constructor leaves them when \<open>n\<close> is not negative:
  \<^verbatim>\<open>resize(n, ...)\<close> on three empty vectors, both totals 0.
\<close>

definition init :: "int32 \<Rightarrow> int32 \<Rightarrow> int32 \<Rightarrow> int32 \<Rightarrow> DungeonManager" where
  "init n t h d =
     \<lparr>tank_queue = t, healer_queue = h, dps_queue = d, dungeon_count = n,
      dungeon_active = replicate (nat (sint n)) False,
      parties_served = replicate (nat (sint n)) 0,
      total_time_served = replicate (nat (sint n)) 0,
      total_parties_formed = 0, total_players_added = 0, shutdown = False\<rparr>"

text \<open>
  The constructor. A negative \<open>n\<close> reaches \<^verbatim>\<open>resize\<close> as a size beyond
  \<^verbatim>\<open>max_size()\<close>: it throws, and there is no object.
\<close>

definition construct :: "int32 \<Rightarrow> int32 \<Rightarrow> int32 \<Rightarrow> int32 \<Rightarrow> error + DungeonManager" where
  "construct n t h d = (if sint n < 0 then Inl LengthError else Inr (init n t h d))"

text \<open>What the code prints and signals, in order.\<close>

datatype event =
    Notify_all
  | Cout_added int32 int32 int32
  | Cout_party_formed nat
  | Cout_completed nat int32
  | Cout_max_runtime

definition canFormParty :: "DungeonManager \<Rightarrow> bool" where
  "canFormParty s \<longleftrightarrow> 1 \<le>s tank_queue s \<and> 1 \<le>s healer_queue s \<and> 3 \<le>s dps_queue s"

definition formParty :: "DungeonManager \<Rightarrow> error + DungeonManager" where
  "formParty s =
     (case int_sub (tank_queue s) 1 of Inl e \<Rightarrow> Inl e | Inr t \<Rightarrow>
      case int_sub (healer_queue s) 1 of Inl e \<Rightarrow> Inl e | Inr h \<Rightarrow>
      case int_sub (dps_queue s) 3 of Inl e \<Rightarrow> Inl e | Inr d \<Rightarrow>
        Inr (s\<lparr>tank_queue := t, healer_queue := h, dps_queue := d,
               total_parties_formed := total_parties_formed s + 1\<rparr>))"

definition addPlayersToQueue ::
  "int32 \<Rightarrow> int32 \<Rightarrow> int32 \<Rightarrow> DungeonManager \<Rightarrow> error + (event list \<times> DungeonManager)" where
  "addPlayersToQueue tanks healers dps s =
     (case int_add (tank_queue s) tanks of Inl e \<Rightarrow> Inl e | Inr t \<Rightarrow>
      case int_add (healer_queue s) healers of Inl e \<Rightarrow> Inl e | Inr h \<Rightarrow>
      case int_add (dps_queue s) dps of Inl e \<Rightarrow> Inl e | Inr d \<Rightarrow>
      case int_add tanks healers of Inl e \<Rightarrow> Inl e | Inr th \<Rightarrow>
      case int_add th dps of Inl e \<Rightarrow> Inl e | Inr thd \<Rightarrow>
        Inr ([Cout_added tanks healers dps, Notify_all],
             s\<lparr>tank_queue := t, healer_queue := h, dps_queue := d,
               total_players_added := total_players_added s + thd\<rparr>))"

section \<open>One worker: \<^verbatim>\<open>dungeonInstance\<close>\<close>

text \<open>
  The loop of \<^verbatim>\<open>dungeonInstance\<close> holds the mutex in two stretches and nowhere else, so
  a worker is always at one of three places:
  \<^item> \<open>Idle\<close>: at the head of the loop, about to lock and \<^verbatim>\<open>cv.wait\<close>;
  \<^item> \<open>Busy\<close>: after \<^verbatim>\<open>lock.unlock()\<close>, drawing the duration and sleeping;
  \<^item> \<open>Stopped\<close>: after the \<^verbatim>\<open>break\<close>.
  Each stretch under the mutex is one step. \<open>dungeonInstance_enter\<close> is the stretch from
  \<^verbatim>\<open>unique_lock\<close> to \<^verbatim>\<open>lock.unlock()\<close> (or to the end of the scope);
  \<open>dungeonInstance_finish\<close> is the one from \<^verbatim>\<open>lock.lock()\<close> to the end of the scope. The
  duration \<^verbatim>\<open>time_dist(gen)\<close> is drawn between them and is an argument here.
  A worker whose wait predicate is false stays parked: \<open>Idle\<close>, nothing changed.
\<close>

datatype location = Idle | Busy | Stopped

definition dungeonInstance_enter ::
  "nat \<Rightarrow> DungeonManager \<Rightarrow> error + (location \<times> event list \<times> DungeonManager)" where
  "dungeonInstance_enter instance_id s =
     (if \<not> (canFormParty s \<or> shutdown s) then Inr (Idle, [], s)
      else if shutdown s \<and> \<not> canFormParty s then Inr (Stopped, [], s)
      else if canFormParty s then
        (case formParty s of Inl e \<Rightarrow> Inl e | Inr s1 \<Rightarrow>
         if \<not> instance_id < length (dungeon_active s1) then Inl IndexOutOfRange
         else if \<not> instance_id < length (parties_served s1) then Inl IndexOutOfRange
         else
           (case int_add (parties_served s1 ! instance_id) 1 of Inl e \<Rightarrow> Inl e | Inr p \<Rightarrow>
              Inr (Busy, [Cout_party_formed instance_id],
                   s1\<lparr>dungeon_active := (dungeon_active s1)[instance_id := True],
                      parties_served := (parties_served s1)[instance_id := p]\<rparr>)))
      else Inr (Idle, [], s))"

definition dungeonInstance_finish ::
  "nat \<Rightarrow> int32 \<Rightarrow> DungeonManager \<Rightarrow> error + (location \<times> event list \<times> DungeonManager)" where
  "dungeonInstance_finish instance_id dungeon_time s =
     (if \<not> instance_id < length (total_time_served s) then Inl IndexOutOfRange
      else
        (case int_add (total_time_served s ! instance_id) dungeon_time of Inl e \<Rightarrow> Inl e | Inr tt \<Rightarrow>
         if \<not> instance_id < length (dungeon_active s) then Inl IndexOutOfRange
         else
           Inr (Idle, [Cout_completed instance_id dungeon_time, Notify_all],
                s\<lparr>total_time_served := (total_time_served s)[instance_id := tt],
                  dungeon_active := (dungeon_active s)[instance_id := False]\<rparr>)))"

text \<open>One step of a worker from where it is.\<close>

fun dungeonInstance ::
  "nat \<Rightarrow> int32 \<Rightarrow> location \<Rightarrow> DungeonManager \<Rightarrow> error + (location \<times> event list \<times> DungeonManager)" where
  "dungeonInstance instance_id dungeon_time Idle s = dungeonInstance_enter instance_id s"
| "dungeonInstance instance_id dungeon_time Busy s = dungeonInstance_finish instance_id dungeon_time s"
| "dungeonInstance instance_id dungeon_time Stopped s = Inr (Stopped, [], s)"

text \<open>The block of \<^verbatim>\<open>startInstances\<close> that requests the shutdown, under the mutex.\<close>

definition startInstances_shutdown :: "DungeonManager \<Rightarrow> event list \<times> DungeonManager" where
  "startInstances_shutdown s = ([Notify_all], s\<lparr>shutdown := True\<rparr>)"

section \<open>The producer: \<^verbatim>\<open>playerProducer\<close>\<close>









section \<open>Sequences of pool operations\<close>

text \<open>
  The pool is changed in two places only: the guarded call
  \<^verbatim>\<open>if (canFormParty()) { formParty(); ... }\<close> of a worker and the call of
  \<^verbatim>\<open>addPlayersToQueue\<close> by the producer, each under the mutex, so any run of the
  program changes the pool by a sequence of these two.
\<close>

datatype pool_op = Withdraw | Add int32 int32 int32

fun apply_op :: "pool_op \<Rightarrow> DungeonManager \<Rightarrow> error + DungeonManager" where
  "apply_op Withdraw s = (if canFormParty s then formParty s else Inr s)"
| "apply_op (Add tanks healers dps) s =
     (case addPlayersToQueue tanks healers dps s of Inl e \<Rightarrow> Inl e | Inr (evs, s') \<Rightarrow> Inr s')"

fun run :: "pool_op list \<Rightarrow> DungeonManager \<Rightarrow> error + DungeonManager" where
  "run [] s = Inr s"
| "run (op # ops) s = (case apply_op op s of Inl e \<Rightarrow> Inl e | Inr s' \<Rightarrow> run ops s')"

fun nonneg_op :: "pool_op \<Rightarrow> bool" where
  "nonneg_op Withdraw = True"
| "nonneg_op (Add tanks healers dps) \<longleftrightarrow> 0 \<le>s tanks \<and> 0 \<le>s healers \<and> 0 \<le>s dps"

definition nonneg_pool :: "DungeonManager \<Rightarrow> bool" where
  "nonneg_pool s \<longleftrightarrow> 0 \<le>s tank_queue s \<and> 0 \<le>s healer_queue s \<and> 0 \<le>s dps_queue s"

text \<open>The amounts a sequence adds to each category, as integers.\<close>

fun added_tanks :: "pool_op list \<Rightarrow> int" where
  "added_tanks [] = 0"
| "added_tanks (Withdraw # ops) = added_tanks ops"
| "added_tanks (Add tanks healers dps # ops) = sint tanks + added_tanks ops"

fun added_healers :: "pool_op list \<Rightarrow> int" where
  "added_healers [] = 0"
| "added_healers (Withdraw # ops) = added_healers ops"
| "added_healers (Add tanks healers dps # ops) = sint healers + added_healers ops"

fun added_dps :: "pool_op list \<Rightarrow> int" where
  "added_dps [] = 0"
| "added_dps (Withdraw # ops) = added_dps ops"
| "added_dps (Add tanks healers dps # ops) = sint dps + added_dps ops"

definition withdraws :: "pool_op list \<Rightarrow> nat" where
  "withdraws ops = count_list ops Withdraw"

text \<open>
  What a run from \<open>s\<close> to \<open>s'\<close> that formed \<open>F\<close> parties keeps, per category, with
  the pool read as integers.
\<close>

definition conserved :: "nat \<Rightarrow> pool_op list \<Rightarrow> DungeonManager \<Rightarrow> DungeonManager \<Rightarrow> bool" where
  "conserved F ops s s' \<longleftrightarrow>
     total_parties_formed s' = total_parties_formed s + of_nat F
     \<and> sint (tank_queue s') + int F = sint (tank_queue s) + added_tanks ops
     \<and> sint (healer_queue s') + int F = sint (healer_queue s) + added_healers ops
     \<and> sint (dps_queue s') + 3 * int F = sint (dps_queue s) + added_dps ops"

text \<open>An addition whose three amounts sum within the range of \<^verbatim>\<open>int\<close>.\<close>

fun sum_fits :: "pool_op \<Rightarrow> bool" where
  "sum_fits Withdraw = True"
| "sum_fits (Add tanks healers dps) \<longleftrightarrow> sint tanks + sint healers + sint dps \<le> INT_MAX"

section \<open>Facts about 32-bit arithmetic\<close>

lemma sint_int32_bounds: "INT_MIN \<le> sint (a :: int32)" "sint (a :: int32) \<le> INT_MAX"
  using sint_ge [of a] sint_lt [of a] by (simp_all add: INT_MIN_def INT_MAX_def)

lemma sint_add_in_range:
  "in_range (sint (a :: int32) + sint (b :: int32)) \<Longrightarrow> sint (a + b) = sint a + sint b"
  by (simp add: in_range_def INT_MIN_def INT_MAX_def sint_word_ariths signed_take_bit_int_eq_self)

lemma sint_sub_in_range:
  "in_range (sint (a :: int32) - sint (b :: int32)) \<Longrightarrow> sint (a - b) = sint a - sint b"
  by (simp add: in_range_def INT_MIN_def INT_MAX_def sint_word_ariths signed_take_bit_int_eq_self)

lemma int_add_Inr: "int_add a b = Inr c \<Longrightarrow> sint c = sint a + sint b \<and> c = a + b"
  by (auto simp: int_add_def sint_add_in_range split: if_splits)

lemma int_sub_Inr: "int_sub a b = Inr c \<Longrightarrow> sint c = sint a - sint b \<and> c = a - b"
  by (auto simp: int_sub_def sint_sub_in_range split: if_splits)

lemma int_sub_defined: "sint b \<le> sint a \<Longrightarrow> 0 \<le> sint b \<Longrightarrow> int_sub a b = Inr (a - b)"
  using sint_int32_bounds [of a] sint_int32_bounds [of b]
  by (simp add: int_sub_def in_range_def INT_MIN_def INT_MAX_def)

lemma canFormParty_sint:
  "canFormParty s \<longleftrightarrow> 1 \<le> sint (tank_queue s) \<and> 1 \<le> sint (healer_queue s) \<and> 3 \<le> sint (dps_queue s)"
  by (simp add: canFormParty_def word_sle_eq)

lemma formParty_viable:
  "canFormParty s \<Longrightarrow>
   formParty s = Inr (s\<lparr>tank_queue := tank_queue s - 1, healer_queue := healer_queue s - 1,
                        dps_queue := dps_queue s - 3,
                        total_parties_formed := total_parties_formed s + 1\<rparr>)"
  by (simp add: formParty_def canFormParty_sint int_sub_defined)

lemma formParty_Inr_eq:
  "formParty s = Inr s' \<Longrightarrow>
     s' = s\<lparr>tank_queue := tank_queue s - 1, healer_queue := healer_queue s - 1,
            dps_queue := dps_queue s - 3, total_parties_formed := total_parties_formed s + 1\<rparr>"
  by (auto simp: formParty_def split: sum.splits dest!: int_sub_Inr)

lemma formParty_Inr:
  "formParty s = Inr s' \<Longrightarrow>
     sint (tank_queue s') = sint (tank_queue s) - 1
     \<and> sint (healer_queue s') = sint (healer_queue s) - 1
     \<and> sint (dps_queue s') = sint (dps_queue s) - 3"
  by (auto simp: formParty_def split: sum.splits dest!: int_sub_Inr)

lemma addPlayersToQueue_Inr_eq:
  "addPlayersToQueue t h d s = Inr (evs, s') \<Longrightarrow>
     evs = [Cout_added t h d, Notify_all]
     \<and> s' = s\<lparr>tank_queue := tank_queue s + t, healer_queue := healer_queue s + h,
              dps_queue := dps_queue s + d,
              total_players_added := total_players_added s + (t + h + d)\<rparr>"
  by (auto simp: addPlayersToQueue_def split: sum.splits dest!: int_add_Inr)

lemma addPlayersToQueue_Inr:
  "addPlayersToQueue t h d s = Inr (evs, s') \<Longrightarrow>
     sint (tank_queue s') = sint (tank_queue s) + sint t
     \<and> sint (healer_queue s') = sint (healer_queue s) + sint h
     \<and> sint (dps_queue s') = sint (dps_queue s) + sint d
     \<and> sint (t + h + d) = sint t + sint h + sint d"
  by (auto simp: addPlayersToQueue_def split: sum.splits dest!: int_add_Inr)

lemma int_add_one_defined: "sint (a :: int32) < INT_MAX \<Longrightarrow> int_add a 1 = Inr (a + 1)"
  using sint_int32_bounds [of a] by (simp add: int_add_def in_range_def INT_MAX_def INT_MIN_def)

lemma sint_of_nat_int32: "int n \<le> INT_MAX \<Longrightarrow> sint (word_of_nat n :: int32) = int n"
  by (simp add: INT_MAX_def signed_of_nat signed_take_bit_int_eq_self)

section \<open>The pool\<close>

lemma formParty_frame:
  "formParty s = Inr s' \<Longrightarrow>
      dungeon_active s' = dungeon_active s \<and> parties_served s' = parties_served s
      \<and> total_time_served s' = total_time_served s \<and> shutdown s' = shutdown s
      \<and> total_players_added s' = total_players_added s"
  by (drule formParty_Inr_eq) simp

lemma addPlayersToQueue_frame:
  "addPlayersToQueue tanks healers dps s = Inr (evs, s') \<Longrightarrow>
      dungeon_active s' = dungeon_active s \<and> parties_served s' = parties_served s
      \<and> total_time_served s' = total_time_served s \<and> shutdown s' = shutdown s
      \<and> total_parties_formed s' = total_parties_formed s
      \<and> total_players_added s' = total_players_added s + (tanks + healers + dps)
      \<and> sint (tanks + healers + dps) = sint tanks + sint healers + sint dps"
  by (frule addPlayersToQueue_Inr_eq, drule addPlayersToQueue_Inr) simp

lemma nonneg_pool_sint:
  "nonneg_pool s \<longleftrightarrow> 0 \<le> sint (tank_queue s) \<and> 0 \<le> sint (healer_queue s) \<and> 0 \<le> sint (dps_queue s)"
  by (simp add: nonneg_pool_def word_sle_eq)

lemma apply_op_nonneg:
  assumes "nonneg_pool s" "nonneg_op op" "apply_op op s = Inr s'"
  shows "nonneg_pool s'"
proof (cases op)
  case Withdraw
  show ?thesis
  proof (cases "canFormParty s")
    case True
    with Withdraw assms(3) have "formParty s = Inr s'" by simp
    from formParty_Inr [OF this] True show ?thesis
      by (simp add: canFormParty_sint nonneg_pool_sint)
  next
    case False
    with Withdraw assms show ?thesis by simp
  qed
next
  case (Add t h d)
  with assms(3) obtain evs where "addPlayersToQueue t h d s = Inr (evs, s')"
    by (auto split: sum.splits)
  from addPlayersToQueue_Inr [OF this] assms(1,2) Add show ?thesis
    by (simp add: nonneg_pool_sint word_sle_eq)
qed

lemma run_nonneg:
  "nonneg_pool s \<Longrightarrow> list_all nonneg_op ops \<Longrightarrow> run ops s = Inr s' \<Longrightarrow> nonneg_pool s'"
proof (induction ops arbitrary: s)
  case Nil
  then show ?case by simp
next
  case (Cons op ops)
  from Cons.prems(3) obtain s1 where s1: "apply_op op s = Inr s1" "run ops s1 = Inr s'"
    by (auto split: sum.splits)
  from Cons.prems(1,2) s1(1) have "nonneg_pool s1"
    by (auto intro: apply_op_nonneg)
  with Cons.IH [of s1] Cons.prems(2) s1(2) show ?case by simp
qed

lemma apply_op_conserved:
  assumes "apply_op op s = Inr s'"
  shows "\<exists>F. F \<le> withdraws [op] \<and> conserved F [op] s s'"
proof (cases op)
  case Withdraw
  show ?thesis
  proof (cases "canFormParty s")
    case True
    with Withdraw assms have f: "formParty s = Inr s'" by simp
    from formParty_Inr [OF f] formParty_Inr_eq [OF f] have "conserved 1 [op] s s'"
      by (simp add: conserved_def Withdraw)
    then show ?thesis by (auto simp: withdraws_def Withdraw intro!: exI [of _ 1])
  next
    case False
    with Withdraw assms have "conserved 0 [op] s s'" by (simp add: conserved_def)
    then show ?thesis by (auto intro!: exI [of _ 0])
  qed
next
  case (Add t h d)
  with assms obtain evs where a: "addPlayersToQueue t h d s = Inr (evs, s')"
    by (auto split: sum.splits)
  from addPlayersToQueue_Inr [OF a] addPlayersToQueue_Inr_eq [OF a] have "conserved 0 [op] s s'"
    by (simp add: conserved_def Add)
  then show ?thesis by (auto intro!: exI [of _ 0])
qed

lemma added_Cons:
  "added_tanks (op # ops) = added_tanks [op] + added_tanks ops"
  "added_healers (op # ops) = added_healers [op] + added_healers ops"
  "added_dps (op # ops) = added_dps [op] + added_dps ops"
  by (cases op; simp)+

lemma conserved_trans:
  "conserved F [op] s s1 \<Longrightarrow> conserved G ops s1 s' \<Longrightarrow> conserved (F + G) (op # ops) s s'"
  unfolding conserved_def
  by (simp add: added_Cons [of op ops])

lemma run_conserved:
  "run ops s = Inr s' \<Longrightarrow> \<exists>F. F \<le> withdraws ops \<and> conserved F ops s s'"
proof (induction ops arbitrary: s)
  case Nil
  then have "conserved 0 [] s s'" by (simp add: conserved_def)
  then show ?case by (auto intro!: exI [of _ 0])
next
  case (Cons op ops)
  from Cons.prems obtain s1 where s1: "apply_op op s = Inr s1" "run ops s1 = Inr s'"
    by (auto split: sum.splits)
  from apply_op_conserved [OF s1(1)] obtain F where F: "F \<le> withdraws [op]" "conserved F [op] s s1"
    by blast
  from Cons.IH [OF s1(2)] obtain G where G: "G \<le> withdraws ops" "conserved G ops s1 s'"
    by blast
  from F(1) G(1) have "F + G \<le> withdraws (op # ops)"
    by (auto simp: withdraws_def split: if_splits)
  with conserved_trans [OF F(2) G(2)] show ?case by blast
qed

lemma word_eq_of_sint_eq:
  assumes "sint (a :: int32) + int F = sint (b :: int32) + x"
  shows "of_nat F + a = b + word_of_int x"
proof -
  from assms have "(word_of_int (sint a + int F) :: int32) = word_of_int (sint b + x)" by simp
  then show ?thesis by (simp add: add.commute)
qed

lemma int_add_defined:
  "0 \<le> sint a \<Longrightarrow> 0 \<le> sint b \<Longrightarrow> sint a + sint b \<le> INT_MAX \<Longrightarrow> int_add a b = Inr (a + b)"
  by (simp add: int_add_def in_range_def INT_MIN_def)

lemma added_nonneg:
  "list_all nonneg_op ops \<Longrightarrow> 0 \<le> added_tanks ops \<and> 0 \<le> added_healers ops \<and> 0 \<le> added_dps ops"
  by (induction ops rule: added_tanks.induct) (simp_all add: word_sle_eq)

lemma addPlayersToQueue_defined:
  assumes "nonneg_pool s" "nonneg_op (Add t h d)" "sum_fits (Add t h d)"
    "sint (tank_queue s) + sint t \<le> INT_MAX" "sint (healer_queue s) + sint h \<le> INT_MAX"
    "sint (dps_queue s) + sint d \<le> INT_MAX"
  shows "\<exists>evs s'. addPlayersToQueue t h d s = Inr (evs, s')"
proof -
  from assms(1,2) have n: "0 \<le> sint (tank_queue s)" "0 \<le> sint (healer_queue s)" "0 \<le> sint (dps_queue s)"
    "0 \<le> sint t" "0 \<le> sint h" "0 \<le> sint d"
    by (simp_all add: nonneg_pool_sint word_sle_eq)
  from n assms(3) have th: "int_add t h = Inr (t + h)"
    by (simp add: int_add_defined)
  from n assms(3) have "sint (t + h) = sint t + sint h"
    by (simp add: sint_add_in_range in_range_def INT_MIN_def)
  with n assms(3) have thd: "int_add (t + h) d = Inr (t + h + d)"
    by (simp add: int_add_defined)
  from n assms(4-6) th thd show ?thesis
    by (simp add: addPlayersToQueue_def int_add_defined)
qed

text \<open>
  A run is defined, that is free of overflow, whenever each category's queue plus all
  that the sequence adds to it stays within \<open>INT_MAX\<close>.
\<close>

lemma run_defined:
  assumes "nonneg_pool s" "list_all nonneg_op ops" "list_all sum_fits ops"
    "sint (tank_queue s) + added_tanks ops \<le> INT_MAX"
    "sint (healer_queue s) + added_healers ops \<le> INT_MAX"
    "sint (dps_queue s) + added_dps ops \<le> INT_MAX"
  shows "\<exists>s'. run ops s = Inr s'"
  using assms
proof (induction ops arbitrary: s)
  case Nil
  show ?case by simp
next
  case (Cons op ops)
  from Cons.prems(2) have nn: "nonneg_op op" "list_all nonneg_op ops" by simp_all
  note rest = added_nonneg [OF nn(2)]
  have "\<exists>s1. apply_op op s = Inr s1"
  proof (cases op)
    case Withdraw
    then show ?thesis by (simp add: formParty_viable)
  next
    case (Add t h d)
    from Cons.prems(4-6) rest Add
    have "sint (tank_queue s) + sint t \<le> INT_MAX" "sint (healer_queue s) + sint h \<le> INT_MAX"
      "sint (dps_queue s) + sint d \<le> INT_MAX"
      by simp_all
    with addPlayersToQueue_defined [of s t h d] Cons.prems(1,3) nn(1) Add
    show ?thesis by auto
  qed
  then obtain s1 where s1: "apply_op op s = Inr s1" by blast
  from apply_op_nonneg [OF Cons.prems(1) nn(1) s1] have p: "nonneg_pool s1" .
  from apply_op_conserved [OF s1] obtain F where "conserved F [op] s s1" by blast
  then have c: "sint (tank_queue s1) \<le> sint (tank_queue s) + added_tanks [op]"
    "sint (healer_queue s1) \<le> sint (healer_queue s) + added_healers [op]"
    "sint (dps_queue s1) \<le> sint (dps_queue s) + added_dps [op]"
    by (simp_all add: conserved_def)
  from c Cons.prems(4-6) added_Cons [of op ops]
  have b: "sint (tank_queue s1) + added_tanks ops \<le> INT_MAX"
    "sint (healer_queue s1) + added_healers ops \<le> INT_MAX"
    "sint (dps_queue s1) + added_dps ops \<le> INT_MAX"
    by simp_all
  from Cons.prems(3) have "list_all sum_fits ops" by simp
  from Cons.IH [OF p nn(2) this b] s1 show ?case by simp
qed

lemma added_append:
  "added_tanks (xs @ ys) = added_tanks xs + added_tanks ys"
  "added_healers (xs @ ys) = added_healers xs + added_healers ys"
  "added_dps (xs @ ys) = added_dps xs + added_dps ys"
  by (induction xs rule: added_tanks.induct) simp_all

lemma added_take_le:
  assumes "list_all nonneg_op ops"
  shows "added_tanks (take k ops) \<le> added_tanks ops"
    "added_healers (take k ops) \<le> added_healers ops"
    "added_dps (take k ops) \<le> added_dps ops"
proof -
  from assms have "list_all nonneg_op (drop k ops)"
    by (auto simp: list_all_iff dest: in_set_dropD)
  from added_nonneg [OF this] added_append [of "take k ops" "drop k ops"]
  show "added_tanks (take k ops) \<le> added_tanks ops"
    "added_healers (take k ops) \<le> added_healers ops"
    "added_dps (take k ops) \<le> added_dps ops"
    by simp_all
qed

lemma list_all_take: "list_all P xs \<Longrightarrow> list_all P (take k xs)"
  by (auto simp: list_all_iff dest: in_set_takeD)

lemma run_prefix_defined:
  assumes "nonneg_pool s" "list_all nonneg_op ops" "list_all sum_fits ops"
    "sint (tank_queue s) + added_tanks ops \<le> INT_MAX"
    "sint (healer_queue s) + added_healers ops \<le> INT_MAX"
    "sint (dps_queue s) + added_dps ops \<le> INT_MAX"
  shows "\<exists>s'. run (take k ops) s = Inr s' \<and> nonneg_pool s'"
proof -
  note n = list_all_take [OF assms(2), of k]
  from added_take_le [OF assms(2), of k] assms(4-6)
  have "sint (tank_queue s) + added_tanks (take k ops) \<le> INT_MAX"
    "sint (healer_queue s) + added_healers (take k ops) \<le> INT_MAX"
    "sint (dps_queue s) + added_dps (take k ops) \<le> INT_MAX"
    by simp_all
  from run_defined [OF assms(1) n list_all_take [OF assms(3)] this]
  obtain s' where "run (take k ops) s = Inr s'" by blast
  with run_nonneg [OF assms(1) n] show ?thesis by blast
qed

lemma run_balanced:
  assumes "run ops s0 = Inr s" "total_parties_formed s0 = 0"
  shows "total_parties_formed s * 1 + tank_queue s = tank_queue s0 + word_of_int (added_tanks ops)"
    "total_parties_formed s * 1 + healer_queue s = healer_queue s0 + word_of_int (added_healers ops)"
    "total_parties_formed s * 3 + dps_queue s = dps_queue s0 + word_of_int (added_dps ops)"
    "int (withdraws ops) \<le> INT_MAX
       \<or> (nonneg_pool s0 \<and> list_all nonneg_op ops \<and> sint (tank_queue s0) + added_tanks ops \<le> INT_MAX) \<Longrightarrow>
     sint (total_parties_formed s) * 1 + sint (tank_queue s) = sint (tank_queue s0) + added_tanks ops
     \<and> sint (total_parties_formed s) * 1 + sint (healer_queue s) = sint (healer_queue s0) + added_healers ops
     \<and> sint (total_parties_formed s) * 3 + sint (dps_queue s) = sint (dps_queue s0) + added_dps ops"
proof -
  from run_conserved [OF assms(1)] obtain F where
    F: "F \<le> withdraws ops" and c: "conserved F ops s0 s" by blast
  from c assms(2) have tot: "total_parties_formed s = of_nat F"
    and tk: "sint (tank_queue s) + int F = sint (tank_queue s0) + added_tanks ops"
    and hl: "sint (healer_queue s) + int F = sint (healer_queue s0) + added_healers ops"
    and dp: "sint (dps_queue s) + 3 * int F = sint (dps_queue s0) + added_dps ops"
    by (simp_all add: conserved_def)
  from tk show "total_parties_formed s * 1 + tank_queue s = tank_queue s0 + word_of_int (added_tanks ops)"
    using word_eq_of_sint_eq [of "tank_queue s" F "tank_queue s0" "added_tanks ops"] by (simp add: tot)
  from hl show "total_parties_formed s * 1 + healer_queue s = healer_queue s0 + word_of_int (added_healers ops)"
    using word_eq_of_sint_eq [of "healer_queue s" F "healer_queue s0" "added_healers ops"] by (simp add: tot)
  from dp have "(word_of_int (sint (dps_queue s) + 3 * int F) :: int32)
      = word_of_int (sint (dps_queue s0) + added_dps ops)"
    by simp
  then show "total_parties_formed s * 3 + dps_queue s = dps_queue s0 + word_of_int (added_dps ops)"
    by (simp add: tot algebra_simps)
  assume b: "int (withdraws ops) \<le> INT_MAX
       \<or> (nonneg_pool s0 \<and> list_all nonneg_op ops \<and> sint (tank_queue s0) + added_tanks ops \<le> INT_MAX)"
  have "int F \<le> INT_MAX"
  proof (cases "int (withdraws ops) \<le> INT_MAX")
    case True
    with F show ?thesis by simp
  next
    case False
    with b have n: "nonneg_pool s0" "list_all nonneg_op ops"
      and m: "sint (tank_queue s0) + added_tanks ops \<le> INT_MAX"
      by simp_all
    from run_nonneg [OF n assms(1)] have "0 \<le> sint (tank_queue s)"
      by (simp add: nonneg_pool_sint)
    with tk m show ?thesis by simp
  qed
  then have "sint (total_parties_formed s) = int F"
    by (simp add: tot sint_of_nat_int32)
  with tk hl dp
  show "sint (total_parties_formed s) * 1 + sint (tank_queue s) = sint (tank_queue s0) + added_tanks ops
     \<and> sint (total_parties_formed s) * 1 + sint (healer_queue s) = sint (healer_queue s0) + added_healers ops
     \<and> sint (total_parties_formed s) * 3 + sint (dps_queue s) = sint (dps_queue s0) + added_dps ops"
    by simp
qed

lemma construct_Inr:
  "construct n t h d = Inr s0 \<Longrightarrow>
     tank_queue s0 = t \<and> healer_queue s0 = h \<and> dps_queue s0 = d \<and> total_parties_formed s0 = 0"
  by (auto simp: construct_def init_def split: if_splits)

section \<open>The worker\<close>

lemma enter_Stopped_iff:
  "(\<exists>evs s'. dungeonInstance_enter instance_id s = Inr (Stopped, evs, s')) \<longleftrightarrow> shutdown s \<and> \<not> canFormParty s"
  by (auto simp: dungeonInstance_enter_def split: sum.splits if_splits)

lemma enter_stop: "shutdown s \<Longrightarrow> \<not> canFormParty s \<Longrightarrow> dungeonInstance_enter instance_id s = Inr (Stopped, [], s)"
  by (simp add: dungeonInstance_enter_def)

lemma enter_viable:
  assumes "canFormParty s" "instance_id < length (dungeon_active s)"
    "instance_id < length (parties_served s)" "sint (parties_served s ! instance_id) < INT_MAX"
  shows "dungeonInstance_enter instance_id s =
     Inr (Busy, [Cout_party_formed instance_id],
          s\<lparr>tank_queue := tank_queue s - 1, healer_queue := healer_queue s - 1,
            dps_queue := dps_queue s - 3, total_parties_formed := total_parties_formed s + 1,
            dungeon_active := (dungeon_active s)[instance_id := True],
            parties_served := (parties_served s)[instance_id := parties_served s ! instance_id + 1]\<rparr>)"
  using assms by (simp add: dungeonInstance_enter_def formParty_viable int_add_one_defined)

lemma finish_Inr:
  "dungeonInstance_finish instance_id dungeon_time s = Inr (l, evs, s') \<Longrightarrow>
     l = Idle \<and> evs = [Cout_completed instance_id dungeon_time, Notify_all]
     \<and> instance_id < length (total_time_served s) \<and> instance_id < length (dungeon_active s)
     \<and> s' = s\<lparr>total_time_served := (total_time_served s)[instance_id := total_time_served s ! instance_id + dungeon_time],
              dungeon_active := (dungeon_active s)[instance_id := False]\<rparr>
     \<and> sint (total_time_served s ! instance_id + dungeon_time) = sint (total_time_served s ! instance_id) + sint dungeon_time"
  by (auto simp: dungeonInstance_finish_def split: sum.splits if_splits dest!: int_add_Inr)

lemma finish_defined:
  assumes "instance_id < length (total_time_served s)" "instance_id < length (dungeon_active s)"
    "in_range (sint (total_time_served s ! instance_id) + sint dungeon_time)"
  shows "dungeonInstance_finish instance_id dungeon_time s =
     Inr (Idle, [Cout_completed instance_id dungeon_time, Notify_all],
          s\<lparr>total_time_served :=
               (total_time_served s)[instance_id := total_time_served s ! instance_id + dungeon_time],
            dungeon_active := (dungeon_active s)[instance_id := False]\<rparr>)"
  using assms by (simp add: dungeonInstance_finish_def int_add_def)

lemma enter_Busy:
  "dungeonInstance_enter instance_id s = Inr (Busy, evs, s') \<Longrightarrow>
     canFormParty s \<and> evs = [Cout_party_formed instance_id]
     \<and> instance_id < length (dungeon_active s) \<and> instance_id < length (parties_served s)
     \<and> s' = s\<lparr>tank_queue := tank_queue s - 1, healer_queue := healer_queue s - 1,
            dps_queue := dps_queue s - 3, total_parties_formed := total_parties_formed s + 1,
            dungeon_active := (dungeon_active s)[instance_id := True],
            parties_served := (parties_served s)[instance_id := parties_served s ! instance_id + 1]\<rparr>
     \<and> sint (parties_served s ! instance_id + 1) = sint (parties_served s ! instance_id) + 1"
  by (auto simp: dungeonInstance_enter_def split: sum.splits if_splits dest!: int_add_Inr formParty_Inr_eq)

lemma enter_events:
  "dungeonInstance_enter instance_id s = Inr (l, evs, s') \<Longrightarrow> Notify_all \<notin> set evs"
  by (auto simp: dungeonInstance_enter_def split: sum.splits if_splits)

lemma enter_drain:
  assumes "canFormParty s" "instance_id < length (dungeon_active s)"
    "instance_id < length (parties_served s)" "sint (parties_served s ! instance_id) < INT_MAX"
  shows "\<exists>s'. dungeonInstance_enter instance_id s = Inr (Busy, [Cout_party_formed instance_id], s')
           \<and> sint (tank_queue s') = sint (tank_queue s) - 1
           \<and> sint (healer_queue s') = sint (healer_queue s) - 1
           \<and> sint (dps_queue s') = sint (dps_queue s) - 3
           \<and> dungeon_active s' ! instance_id"
  using formParty_Inr [OF formParty_viable [OF assms(1)]] assms
  by (simp add: enter_viable)

lemma formParty_not_enabling: "formParty s = Inr s' \<Longrightarrow> canFormParty s' \<Longrightarrow> canFormParty s"
  by (drule formParty_Inr) (simp add: canFormParty_sint)

lemma enter_statistics:
  "dungeonInstance_enter instance_id s = Inr (Busy, evs, s') \<Longrightarrow>
      sint (parties_served s' ! instance_id) = sint (parties_served s ! instance_id) + 1
      \<and> (\<forall>j. j \<noteq> instance_id \<longrightarrow> parties_served s' ! j = parties_served s ! j)
      \<and> dungeon_active s' ! instance_id
      \<and> total_time_served s' = total_time_served s"
  by (drule enter_Busy) simp

lemma finish_statistics:
  "dungeonInstance_finish instance_id dungeon_time s = Inr (l, evs, s') \<Longrightarrow>
      l = Idle
      \<and> sint (total_time_served s' ! instance_id) = sint (total_time_served s ! instance_id) + sint dungeon_time
      \<and> (\<forall>j. j \<noteq> instance_id \<longrightarrow> total_time_served s' ! j = total_time_served s ! j)
      \<and> \<not> dungeon_active s' ! instance_id
      \<and> parties_served s' = parties_served s"
  by (drule finish_Inr) simp

section \<open>The producer\<close>













section \<open>Properties\<close>

text \<open>
  C1. In every state where a party can be formed (at least one tank, one healer and
  three dps), \<^verbatim>\<open>formParty\<close> returns, with one tank, one healer and three dps fewer in
  the queues and \<open>total_parties_formed\<close> incremented by 1. The increment is that of
  an atomic: \<open>+ 1\<close> on the 32-bit word, which is \<open>+ 1\<close> on the integer read from it
  unless the total stood at \<open>INT_MAX\<close>.
\<close>

theorem formParty_decrements:
  assumes "1 \<le> sint (tank_queue s)" "1 \<le> sint (healer_queue s)" "3 \<le> sint (dps_queue s)"
  shows "\<exists>s'. formParty s = Inr s'
           \<and> sint (tank_queue s') = sint (tank_queue s) - 1
           \<and> sint (healer_queue s') = sint (healer_queue s) - 1
           \<and> sint (dps_queue s') = sint (dps_queue s) - 3
           \<and> total_parties_formed s' = total_parties_formed s + 1
           \<and> (sint (total_parties_formed s) < INT_MAX \<longrightarrow>
                sint (total_parties_formed s') = sint (total_parties_formed s) + 1)"
proof -
  from assms have "canFormParty s" by (simp add: canFormParty_sint)
  then obtain s' where s': "formParty s = Inr s'" by (simp add: formParty_viable)
  from formParty_Inr_eq [OF s'] have tot: "total_parties_formed s' = total_parties_formed s + 1"
    by (cases s') simp
  have "sint (total_parties_formed s) < INT_MAX \<Longrightarrow>
      sint (total_parties_formed s + 1) = sint (total_parties_formed s) + 1"
    using sint_add_in_range [of "total_parties_formed s" 1] sint_int32_bounds [of "total_parties_formed s"]
    by (simp add: in_range_def INT_MAX_def INT_MIN_def)
  with formParty_Inr [OF s'] tot s' show ?thesis
    by auto
qed

theorem formParty_decrements_witness:
  "1 \<le> sint (tank_queue (init 1 1 1 3)) \<and> 1 \<le> sint (healer_queue (init 1 1 1 3))
   \<and> 3 \<le> sint (dps_queue (init 1 1 1 3))
   \<and> sint (total_parties_formed (init 1 1 1 3)) < INT_MAX
   \<and> (\<exists>s'. formParty (init 1 1 1 3) = Inr s'
         \<and> sint (tank_queue s') = 0 \<and> sint (healer_queue s') = 0 \<and> sint (dps_queue s') = 0
         \<and> total_parties_formed s' = 1 \<and> sint (total_parties_formed s') = 1)"
  using formParty_decrements [of "init 1 1 1 3"]
  by (simp add: init_def INT_MAX_def)

text \<open>
  C2. \<^verbatim>\<open>canFormParty\<close> is true exactly when there is at least one tank, at least one
  healer and at least three dps in the queues, the counts read as signed integers.
\<close>

theorem canFormParty_iff:
  "canFormParty s \<longleftrightarrow>
     1 \<le> sint (tank_queue s) \<and> 1 \<le> sint (healer_queue s) \<and> 3 \<le> sint (dps_queue s)"
  by (simp add: canFormParty_def word_sle_eq)

text \<open>
  C3, as the code has it. Start from queues that are not negative and take any sequence
  of guarded withdrawals and of additions of amounts that are not negative. After each
  operation that is carried out without leaving the range of \<^verbatim>\<open>int\<close>, none of the three
  queues is negative. And every operation of the sequence is carried out so, leaving
  no queue negative, when for each category what the queue holds at first plus all that
  the sequence adds is at most \<open>INT_MAX\<close> and the three amounts of each addition sum
  to at most \<open>INT_MAX\<close>.
\<close>

theorem counters_never_negative:
  assumes "0 \<le> sint (tank_queue s0)" "0 \<le> sint (healer_queue s0)" "0 \<le> sint (dps_queue s0)"
    and "list_all nonneg_op ops"
  shows "(\<forall>k \<le> length ops. \<forall>s. run (take k ops) s0 = Inr s \<longrightarrow>
           0 \<le> sint (tank_queue s) \<and> 0 \<le> sint (healer_queue s) \<and> 0 \<le> sint (dps_queue s))
       \<and> (list_all sum_fits ops
            \<and> sint (tank_queue s0) + added_tanks ops \<le> INT_MAX
            \<and> sint (healer_queue s0) + added_healers ops \<le> INT_MAX
            \<and> sint (dps_queue s0) + added_dps ops \<le> INT_MAX \<longrightarrow>
          (\<forall>k \<le> length ops. \<exists>s. run (take k ops) s0 = Inr s
             \<and> 0 \<le> sint (tank_queue s) \<and> 0 \<le> sint (healer_queue s) \<and> 0 \<le> sint (dps_queue s)))"
proof -
  from assms(1-3) have p: "nonneg_pool s0" by (simp add: nonneg_pool_sint)
  have 1: "\<forall>k \<le> length ops. \<forall>s. run (take k ops) s0 = Inr s \<longrightarrow>
           0 \<le> sint (tank_queue s) \<and> 0 \<le> sint (healer_queue s) \<and> 0 \<le> sint (dps_queue s)"
    using run_nonneg [OF p list_all_take [OF assms(4)]] by (simp add: nonneg_pool_sint)
  have 2: "list_all sum_fits ops
            \<and> sint (tank_queue s0) + added_tanks ops \<le> INT_MAX
            \<and> sint (healer_queue s0) + added_healers ops \<le> INT_MAX
            \<and> sint (dps_queue s0) + added_dps ops \<le> INT_MAX \<longrightarrow>
          (\<forall>k \<le> length ops. \<exists>s. run (take k ops) s0 = Inr s
             \<and> 0 \<le> sint (tank_queue s) \<and> 0 \<le> sint (healer_queue s) \<and> 0 \<le> sint (dps_queue s))"
    using run_prefix_defined [OF p assms(4)] by (simp add: nonneg_pool_sint)
  from 1 2 show ?thesis by (rule conjI)
qed

theorem counters_never_negative_witness:
  "0 \<le> sint (tank_queue (init 2 1 1 3)) \<and> 0 \<le> sint (healer_queue (init 2 1 1 3))
   \<and> 0 \<le> sint (dps_queue (init 2 1 1 3))
   \<and> list_all nonneg_op [Withdraw, Add 1 0 2, Add 0 1 1, Withdraw]
   \<and> list_all sum_fits [Withdraw, Add 1 0 2, Add 0 1 1, Withdraw]
   \<and> sint (tank_queue (init 2 1 1 3)) + added_tanks [Withdraw, Add 1 0 2, Add 0 1 1, Withdraw] \<le> INT_MAX
   \<and> sint (healer_queue (init 2 1 1 3)) + added_healers [Withdraw, Add 1 0 2, Add 0 1 1, Withdraw] \<le> INT_MAX
   \<and> sint (dps_queue (init 2 1 1 3)) + added_dps [Withdraw, Add 1 0 2, Add 0 1 1, Withdraw] \<le> INT_MAX
   \<and> (3 :: nat) \<le> length [Withdraw, Add 1 0 2, Add 0 1 1, Withdraw]
   \<and> run (take 3 [Withdraw, Add 1 0 2, Add 0 1 1, Withdraw]) (init 2 1 1 3) =
       Inr \<lparr>tank_queue = 1, healer_queue = 1, dps_queue = 3, dungeon_count = 2,
            dungeon_active = [False, False], parties_served = [0, 0], total_time_served = [0, 0],
            total_parties_formed = 1, total_players_added = 5, shutdown = False\<rparr>
   \<and> (\<exists>s. run (take 3 [Withdraw, Add 1 0 2, Add 0 1 1, Withdraw]) (init 2 1 1 3) = Inr s
         \<and> 0 \<le> sint (tank_queue s) \<and> 0 \<le> sint (healer_queue s) \<and> 0 \<le> sint (dps_queue s))
   \<and> 0 \<le> sint (1 :: int32) \<and> 0 \<le> sint (3 :: int32)"
proof -
  let ?ops = "[Withdraw, Add 1 0 2, Add 0 1 1, Withdraw]"
  let ?s = "\<lparr>tank_queue = 1, healer_queue = 1, dps_queue = 3, dungeon_count = 2,
            dungeon_active = [False, False], parties_served = [0, 0], total_time_served = [0, 0],
            total_parties_formed = 1, total_players_added = 5, shutdown = False\<rparr>"
  have h: "0 \<le> sint (tank_queue (init 2 1 1 3))" "0 \<le> sint (healer_queue (init 2 1 1 3))"
    "0 \<le> sint (dps_queue (init 2 1 1 3))"
    by (simp_all add: init_def)
  have n: "list_all nonneg_op ?ops"
    by (simp add: word_sle_eq)
  have f: "list_all sum_fits ?ops"
    by (simp add: INT_MAX_def)
  have b: "sint (tank_queue (init 2 1 1 3)) + added_tanks ?ops \<le> INT_MAX"
    "sint (healer_queue (init 2 1 1 3)) + added_healers ?ops \<le> INT_MAX"
    "sint (dps_queue (init 2 1 1 3)) + added_dps ?ops \<le> INT_MAX"
    by (simp_all add: init_def INT_MAX_def)
  have k: "(3 :: nat) \<le> length ?ops"
    by simp
  have r: "run (take 3 ?ops) (init 2 1 1 3) = Inr ?s"
    by code_simp
  note t = counters_never_negative [OF h n]
  from t r k
  have 1: "0 \<le> sint (tank_queue ?s) \<and> 0 \<le> sint (healer_queue ?s) \<and> 0 \<le> sint (dps_queue ?s)"
    by blast
  from t f b k
  have 2: "\<exists>s. run (take 3 ?ops) (init 2 1 1 3) = Inr s
         \<and> 0 \<le> sint (tank_queue s) \<and> 0 \<le> sint (healer_queue s) \<and> 0 \<le> sint (dps_queue s)"
    by blast
  from 1 have 3: "0 \<le> sint (1 :: int32) \<and> 0 \<le> sint (3 :: int32)"
    by simp
  from h n f b k r 2 3 show ?thesis by blast
qed

text \<open>
  C3 as the claim states it fails: with the tank queue at \<open>INT_MAX\<close>, as \<^verbatim>\<open>main\<close>
  accepts it, the addition of one tank leaves the range of \<^verbatim>\<open>int\<close>. Nothing is
  guaranteed after it, and the sum in two's complement is negative.
\<close>

theorem add_at_INT_MAX_overflows:
  "0 \<le> sint (tank_queue (init 1 2147483647 0 0)) \<and> 0 \<le> sint (healer_queue (init 1 2147483647 0 0))
   \<and> 0 \<le> sint (dps_queue (init 1 2147483647 0 0))
   \<and> list_all nonneg_op [Add 1 0 0]
   \<and> run [Add 1 0 0] (init 1 2147483647 0 0) = Inl SignedOverflow
   \<and> sint (tank_queue (init 1 2147483647 0 0) + 1) < 0"
proof -
  have 1: "0 \<le> sint (tank_queue (init 1 2147483647 0 0)) \<and> 0 \<le> sint (healer_queue (init 1 2147483647 0 0))
      \<and> 0 \<le> sint (dps_queue (init 1 2147483647 0 0))"
    by (simp add: init_def)
  have 2: "list_all nonneg_op [Add 1 0 0]"
    by (simp add: word_sle_eq)
  have 3: "run [Add 1 0 0] (init 1 2147483647 0 0) = Inl SignedOverflow"
    by code_simp
  have 4: "sint (tank_queue (init 1 2147483647 0 0) + 1) < 0"
    by (simp add: init_def)
  from 1 2 3 4 show ?thesis by (intro conjI) simp_all
qed

text \<open>
  C4, as the code has it. Take a state reached from the constructor's by guarded
  withdrawals and additions, none of which left the range of \<^verbatim>\<open>int\<close>. For each
  category, the parties formed times what a party takes of the category, plus what the
  queue holds, is what the queue held at first plus all that was added: in the 32-bit
  arithmetic of the counters as it stands, and between the integers read from them as
  long as \<open>total_parties_formed\<close> has not wrapped around, which it cannot within
  \<open>INT_MAX\<close> withdrawals. And when nothing is negative, each category's first count
  plus all that is added to it is at most \<open>INT_MAX\<close> and the three amounts of each
  addition sum to at most \<open>INT_MAX\<close>, the state is reached and the integers balance.
\<close>

theorem conservation:
  assumes "construct n t h d = Inr s0"
  shows "(\<forall>s. run ops s0 = Inr s \<longrightarrow>
            total_parties_formed s * 1 + tank_queue s = t + word_of_int (added_tanks ops)
          \<and> total_parties_formed s * 1 + healer_queue s = h + word_of_int (added_healers ops)
          \<and> total_parties_formed s * 3 + dps_queue s = d + word_of_int (added_dps ops)
          \<and> (int (withdraws ops) \<le> INT_MAX \<longrightarrow>
               sint (total_parties_formed s) * 1 + sint (tank_queue s) = sint t + added_tanks ops
             \<and> sint (total_parties_formed s) * 1 + sint (healer_queue s) = sint h + added_healers ops
             \<and> sint (total_parties_formed s) * 3 + sint (dps_queue s) = sint d + added_dps ops))
       \<and> (0 \<le> sint t \<and> 0 \<le> sint h \<and> 0 \<le> sint d
            \<and> list_all nonneg_op ops \<and> list_all sum_fits ops
            \<and> sint t + added_tanks ops \<le> INT_MAX
            \<and> sint h + added_healers ops \<le> INT_MAX
            \<and> sint d + added_dps ops \<le> INT_MAX \<longrightarrow>
          (\<exists>s. run ops s0 = Inr s
             \<and> sint (total_parties_formed s) * 1 + sint (tank_queue s) = sint t + added_tanks ops
             \<and> sint (total_parties_formed s) * 1 + sint (healer_queue s) = sint h + added_healers ops
             \<and> sint (total_parties_formed s) * 3 + sint (dps_queue s) = sint d + added_dps ops))"
proof -
  from construct_Inr [OF assms]
  have q: "tank_queue s0 = t" "healer_queue s0 = h" "dps_queue s0 = d"
    and z: "total_parties_formed s0 = 0"
    by simp_all
  have 1: "\<forall>s. run ops s0 = Inr s \<longrightarrow>
            total_parties_formed s * 1 + tank_queue s = t + word_of_int (added_tanks ops)
          \<and> total_parties_formed s * 1 + healer_queue s = h + word_of_int (added_healers ops)
          \<and> total_parties_formed s * 3 + dps_queue s = d + word_of_int (added_dps ops)
          \<and> (int (withdraws ops) \<le> INT_MAX \<longrightarrow>
               sint (total_parties_formed s) * 1 + sint (tank_queue s) = sint t + added_tanks ops
             \<and> sint (total_parties_formed s) * 1 + sint (healer_queue s) = sint h + added_healers ops
             \<and> sint (total_parties_formed s) * 3 + sint (dps_queue s) = sint d + added_dps ops)"
  proof (intro allI impI)
    fix s
    assume r: "run ops s0 = Inr s"
    note b = run_balanced [OF r z, unfolded q]
    from b(1-3) b(4)
    show "total_parties_formed s * 1 + tank_queue s = t + word_of_int (added_tanks ops)
          \<and> total_parties_formed s * 1 + healer_queue s = h + word_of_int (added_healers ops)
          \<and> total_parties_formed s * 3 + dps_queue s = d + word_of_int (added_dps ops)
          \<and> (int (withdraws ops) \<le> INT_MAX \<longrightarrow>
               sint (total_parties_formed s) * 1 + sint (tank_queue s) = sint t + added_tanks ops
             \<and> sint (total_parties_formed s) * 1 + sint (healer_queue s) = sint h + added_healers ops
             \<and> sint (total_parties_formed s) * 3 + sint (dps_queue s) = sint d + added_dps ops)"
      by blast
  qed
  have 2: "0 \<le> sint t \<and> 0 \<le> sint h \<and> 0 \<le> sint d
            \<and> list_all nonneg_op ops \<and> list_all sum_fits ops
            \<and> sint t + added_tanks ops \<le> INT_MAX
            \<and> sint h + added_healers ops \<le> INT_MAX
            \<and> sint d + added_dps ops \<le> INT_MAX \<longrightarrow>
          (\<exists>s. run ops s0 = Inr s
             \<and> sint (total_parties_formed s) * 1 + sint (tank_queue s) = sint t + added_tanks ops
             \<and> sint (total_parties_formed s) * 1 + sint (healer_queue s) = sint h + added_healers ops
             \<and> sint (total_parties_formed s) * 3 + sint (dps_queue s) = sint d + added_dps ops)"
  proof
    assume a: "0 \<le> sint t \<and> 0 \<le> sint h \<and> 0 \<le> sint d
            \<and> list_all nonneg_op ops \<and> list_all sum_fits ops
            \<and> sint t + added_tanks ops \<le> INT_MAX
            \<and> sint h + added_healers ops \<le> INT_MAX
            \<and> sint d + added_dps ops \<le> INT_MAX"
    then have p: "nonneg_pool s0" by (simp add: nonneg_pool_sint q)
    from a have n: "list_all nonneg_op ops" and f: "list_all sum_fits ops"
      and m: "sint (tank_queue s0) + added_tanks ops \<le> INT_MAX"
        "sint (healer_queue s0) + added_healers ops \<le> INT_MAX"
        "sint (dps_queue s0) + added_dps ops \<le> INT_MAX"
      by (simp_all add: q)
    from run_defined [OF p n f m] obtain s where r: "run ops s0 = Inr s" by blast
    from p n m(1) have "int (withdraws ops) \<le> INT_MAX
       \<or> (nonneg_pool s0 \<and> list_all nonneg_op ops \<and> sint (tank_queue s0) + added_tanks ops \<le> INT_MAX)"
      by simp
    from run_balanced(4) [OF r z this, unfolded q] r
    show "\<exists>s. run ops s0 = Inr s
             \<and> sint (total_parties_formed s) * 1 + sint (tank_queue s) = sint t + added_tanks ops
             \<and> sint (total_parties_formed s) * 1 + sint (healer_queue s) = sint h + added_healers ops
             \<and> sint (total_parties_formed s) * 3 + sint (dps_queue s) = sint d + added_dps ops"
      by blast
  qed
  from 1 2 show ?thesis by (rule conjI)
qed

theorem conservation_witness:
  "construct 2 1 1 3 = Inr (init 2 1 1 3)
   \<and> run [Withdraw, Add 1 0 2, Add 0 1 1, Withdraw] (init 2 1 1 3) =
       Inr \<lparr>tank_queue = 0, healer_queue = 0, dps_queue = 0, dungeon_count = 2,
            dungeon_active = [False, False], parties_served = [0, 0], total_time_served = [0, 0],
            total_parties_formed = 2, total_players_added = 5, shutdown = False\<rparr>
   \<and> int (withdraws [Withdraw, Add 1 0 2, Add 0 1 1, Withdraw]) \<le> INT_MAX
   \<and> 0 \<le> sint (1 :: int32) \<and> 0 \<le> sint (3 :: int32)
   \<and> list_all nonneg_op [Withdraw, Add 1 0 2, Add 0 1 1, Withdraw]
   \<and> list_all sum_fits [Withdraw, Add 1 0 2, Add 0 1 1, Withdraw]
   \<and> sint (1 :: int32) + added_tanks [Withdraw, Add 1 0 2, Add 0 1 1, Withdraw] \<le> INT_MAX
   \<and> sint (1 :: int32) + added_healers [Withdraw, Add 1 0 2, Add 0 1 1, Withdraw] \<le> INT_MAX
   \<and> sint (3 :: int32) + added_dps [Withdraw, Add 1 0 2, Add 0 1 1, Withdraw] \<le> INT_MAX
   \<and> added_tanks [Withdraw, Add 1 0 2, Add 0 1 1, Withdraw] = 1
   \<and> added_healers [Withdraw, Add 1 0 2, Add 0 1 1, Withdraw] = 1
   \<and> added_dps [Withdraw, Add 1 0 2, Add 0 1 1, Withdraw] = 3
   \<and> sint (2 :: int32) * 1 + sint (0 :: int32) = sint (1 :: int32) + 1
   \<and> sint (2 :: int32) * 3 + sint (0 :: int32) = sint (3 :: int32) + 3
   \<and> (\<exists>s. run [Withdraw, Add 1 0 2, Add 0 1 1, Withdraw] (init 2 1 1 3) = Inr s
         \<and> sint (total_parties_formed s) * 3 + sint (dps_queue s) = 6)"
proof -
  let ?ops = "[Withdraw, Add 1 0 2, Add 0 1 1, Withdraw]"
  let ?s = "\<lparr>tank_queue = 0, healer_queue = 0, dps_queue = 0, dungeon_count = 2,
            dungeon_active = [False, False], parties_served = [0, 0], total_time_served = [0, 0],
            total_parties_formed = 2, total_players_added = 5, shutdown = False\<rparr>"
  have c: "construct 2 1 1 3 = Inr (init 2 1 1 3)"
    by (simp add: construct_def)
  have r: "run ?ops (init 2 1 1 3) = Inr ?s"
    by code_simp
  have w: "int (withdraws ?ops) \<le> INT_MAX"
    by (simp add: withdraws_def INT_MAX_def)
  have a: "added_tanks ?ops = 1" "added_healers ?ops = 1" "added_dps ?ops = 3"
    by simp_all
  have n: "0 \<le> sint (1 :: int32) \<and> 0 \<le> sint (3 :: int32)"
    "list_all nonneg_op ?ops" "list_all sum_fits ?ops"
    by (simp_all add: word_sle_eq INT_MAX_def)
  have b: "sint (1 :: int32) + added_tanks ?ops \<le> INT_MAX"
    "sint (1 :: int32) + added_healers ?ops \<le> INT_MAX"
    "sint (3 :: int32) + added_dps ?ops \<le> INT_MAX"
    by (simp_all add: INT_MAX_def)
  note t = conservation [OF c, of ?ops]
  from t r w
  have 1: "sint (total_parties_formed ?s) * 1 + sint (tank_queue ?s) = sint (1 :: int32) + added_tanks ?ops
      \<and> sint (total_parties_formed ?s) * 3 + sint (dps_queue ?s) = sint (3 :: int32) + added_dps ?ops"
    by blast
  then have 2: "sint (2 :: int32) * 1 + sint (0 :: int32) = sint (1 :: int32) + 1
      \<and> sint (2 :: int32) * 3 + sint (0 :: int32) = sint (3 :: int32) + 3"
    by (simp only: a DungeonManager.simps)
  from t n b
  have "\<exists>s. run ?ops (init 2 1 1 3) = Inr s
         \<and> sint (total_parties_formed s) * 3 + sint (dps_queue s) = sint (3 :: int32) + added_dps ?ops"
    by blast
  then have 3: "\<exists>s. run ?ops (init 2 1 1 3) = Inr s
         \<and> sint (total_parties_formed s) * 3 + sint (dps_queue s) = 6"
    by (simp only: a) simp
  from c r w n b a 2 3 show ?thesis by blast
qed

text \<open>
  C4 as the claim states it fails: with the tank queue at \<open>INT_MAX\<close> at first, the
  addition of one tank leaves the range of \<^verbatim>\<open>int\<close>; no state is reached, and with the
  sum in two's complement the tanks do not balance.
\<close>

theorem tanks_unbalanced_after_overflow:
  "construct 1 2147483647 1 3 = Inr (init 1 2147483647 1 3)
   \<and> run [Add 1 0 0] (init 1 2147483647 1 3) = Inl SignedOverflow
   \<and> sint (total_parties_formed (init 1 2147483647 1 3)) * 1
       + sint (tank_queue (init 1 2147483647 1 3) + 1)
     \<noteq> sint (2147483647 :: int32) + added_tanks [Add 1 0 0]"
proof -
  have 1: "construct 1 2147483647 1 3 = Inr (init 1 2147483647 1 3)"
    by (simp add: construct_def)
  have 2: "run [Add 1 0 0] (init 1 2147483647 1 3) = Inl SignedOverflow"
    by code_simp
  have 3: "sint (total_parties_formed (init 1 2147483647 1 3)) * 1
       + sint (tank_queue (init 1 2147483647 1 3) + 1)
     \<noteq> sint (2147483647 :: int32) + added_tanks [Add 1 0 0]"
    by (simp add: init_def)
  from 1 2 3 show ?thesis by (intro conjI)
qed

text \<open>
  C5. A worker at the head of its loop goes to \<open>Stopped\<close> exactly when the shutdown
  flag is set and no party can be formed. With the flag set and a party possible it
  withdraws the party and goes to \<open>Busy\<close>. The step from \<open>Busy\<close> processes the
  party: for a worker of the manager and a duration that keeps its total in range it
  is defined, adds the duration to the worker's \<open>total_time_served\<close>, marks the
  worker inactive, prints, signals, and leads back to the head of the loop, where the
  test is made again; no step from \<open>Busy\<close> does anything else. \<open>Stopped\<close> is final.
\<close>

theorem worker_stops_exactly_when:
  "((\<exists>evs s'. dungeonInstance instance_id dungeon_time Idle s = Inr (Stopped, evs, s'))
        \<longleftrightarrow> shutdown s \<and> \<not> canFormParty s)
   \<and> (shutdown s \<and> \<not> canFormParty s \<longrightarrow>
        dungeonInstance instance_id dungeon_time Idle s = Inr (Stopped, [], s))
   \<and> (shutdown s \<and> canFormParty s \<and> instance_id < length (dungeon_active s)
        \<and> instance_id < length (parties_served s) \<and> sint (parties_served s ! instance_id) < INT_MAX \<longrightarrow>
        (\<exists>s'. dungeonInstance instance_id dungeon_time Idle s = Inr (Busy, [Cout_party_formed instance_id], s')
           \<and> sint (tank_queue s') = sint (tank_queue s) - 1
           \<and> sint (healer_queue s') = sint (healer_queue s) - 1
           \<and> sint (dps_queue s') = sint (dps_queue s) - 3
           \<and> dungeon_active s' ! instance_id))
   \<and> (instance_id < length (total_time_served s) \<and> instance_id < length (dungeon_active s)
        \<and> in_range (sint (total_time_served s ! instance_id) + sint dungeon_time) \<longrightarrow>
        dungeonInstance instance_id dungeon_time Busy s =
          Inr (Idle, [Cout_completed instance_id dungeon_time, Notify_all],
               s\<lparr>total_time_served :=
                    (total_time_served s)[instance_id := total_time_served s ! instance_id + dungeon_time],
                 dungeon_active := (dungeon_active s)[instance_id := False]\<rparr>)
        \<and> sint (total_time_served s ! instance_id + dungeon_time)
            = sint (total_time_served s ! instance_id) + sint dungeon_time)
   \<and> (\<forall>l evs s'. dungeonInstance instance_id dungeon_time Busy s = Inr (l, evs, s') \<longrightarrow>
        l = Idle \<and> evs = [Cout_completed instance_id dungeon_time, Notify_all]
        \<and> s' = s\<lparr>total_time_served :=
                    (total_time_served s)[instance_id := total_time_served s ! instance_id + dungeon_time],
                  dungeon_active := (dungeon_active s)[instance_id := False]\<rparr>)
   \<and> dungeonInstance instance_id dungeon_time Stopped s = Inr (Stopped, [], s)"
proof -
  have 1: "(\<exists>evs s'. dungeonInstance instance_id dungeon_time Idle s = Inr (Stopped, evs, s'))
        \<longleftrightarrow> shutdown s \<and> \<not> canFormParty s"
    by (simp add: enter_Stopped_iff)
  have 2: "shutdown s \<and> \<not> canFormParty s \<longrightarrow>
        dungeonInstance instance_id dungeon_time Idle s = Inr (Stopped, [], s)"
    by (simp add: enter_stop)
  have 3: "shutdown s \<and> canFormParty s \<and> instance_id < length (dungeon_active s)
        \<and> instance_id < length (parties_served s) \<and> sint (parties_served s ! instance_id) < INT_MAX \<longrightarrow>
        (\<exists>s'. dungeonInstance instance_id dungeon_time Idle s = Inr (Busy, [Cout_party_formed instance_id], s')
           \<and> sint (tank_queue s') = sint (tank_queue s) - 1
           \<and> sint (healer_queue s') = sint (healer_queue s) - 1
           \<and> sint (dps_queue s') = sint (dps_queue s) - 3
           \<and> dungeon_active s' ! instance_id)"
    using enter_drain [of s instance_id] by simp
  have 4: "instance_id < length (total_time_served s) \<and> instance_id < length (dungeon_active s)
        \<and> in_range (sint (total_time_served s ! instance_id) + sint dungeon_time) \<longrightarrow>
        dungeonInstance instance_id dungeon_time Busy s =
          Inr (Idle, [Cout_completed instance_id dungeon_time, Notify_all],
               s\<lparr>total_time_served :=
                    (total_time_served s)[instance_id := total_time_served s ! instance_id + dungeon_time],
                 dungeon_active := (dungeon_active s)[instance_id := False]\<rparr>)
        \<and> sint (total_time_served s ! instance_id + dungeon_time)
            = sint (total_time_served s ! instance_id) + sint dungeon_time"
    by (simp add: finish_defined sint_add_in_range)
  have 5: "\<forall>l evs s'. dungeonInstance instance_id dungeon_time Busy s = Inr (l, evs, s') \<longrightarrow>
        l = Idle \<and> evs = [Cout_completed instance_id dungeon_time, Notify_all]
        \<and> s' = s\<lparr>total_time_served :=
                    (total_time_served s)[instance_id := total_time_served s ! instance_id + dungeon_time],
                  dungeon_active := (dungeon_active s)[instance_id := False]\<rparr>"
    using finish_Inr [of instance_id dungeon_time s] by simp
  have 6: "dungeonInstance instance_id dungeon_time Stopped s = Inr (Stopped, [], s)"
    by simp
  from 1 2 3 4 5 6 show ?thesis by (intro conjI)
qed

theorem worker_stops_exactly_when_witness:
  "shutdown ((init 1 0 1 3)\<lparr>shutdown := True\<rparr>) \<and> \<not> canFormParty ((init 1 0 1 3)\<lparr>shutdown := True\<rparr>)
   \<and> dungeonInstance 0 5 Idle ((init 1 0 1 3)\<lparr>shutdown := True\<rparr>)
       = Inr (Stopped, [], (init 1 0 1 3)\<lparr>shutdown := True\<rparr>)
   \<and> shutdown ((init 1 1 1 3)\<lparr>shutdown := True\<rparr>) \<and> canFormParty ((init 1 1 1 3)\<lparr>shutdown := True\<rparr>)
   \<and> 0 < length (dungeon_active ((init 1 1 1 3)\<lparr>shutdown := True\<rparr>))
   \<and> 0 < length (parties_served ((init 1 1 1 3)\<lparr>shutdown := True\<rparr>))
   \<and> sint (parties_served ((init 1 1 1 3)\<lparr>shutdown := True\<rparr>) ! 0) < INT_MAX
   \<and> dungeonInstance 0 5 Idle ((init 1 1 1 3)\<lparr>shutdown := True\<rparr>) =
       Inr (Busy, [Cout_party_formed 0],
            \<lparr>tank_queue = 0, healer_queue = 0, dps_queue = 0, dungeon_count = 1,
             dungeon_active = [True], parties_served = [1], total_time_served = [0],
             total_parties_formed = 1, total_players_added = 0, shutdown = True\<rparr>)
   \<and> in_range (sint (0 :: int32) + sint (5 :: int32))
   \<and> dungeonInstance 0 5 Busy
        \<lparr>tank_queue = 0, healer_queue = 0, dps_queue = 0, dungeon_count = 1,
         dungeon_active = [True], parties_served = [1], total_time_served = [0],
         total_parties_formed = 1, total_players_added = 0, shutdown = True\<rparr> =
       Inr (Idle, [Cout_completed 0 5, Notify_all],
            \<lparr>tank_queue = 0, healer_queue = 0, dps_queue = 0, dungeon_count = 1,
             dungeon_active = [False], parties_served = [1], total_time_served = [5],
             total_parties_formed = 1, total_players_added = 0, shutdown = True\<rparr>)
   \<and> dungeonInstance 0 5 Stopped ((init 1 0 1 3)\<lparr>shutdown := True\<rparr>)
       = Inr (Stopped, [], (init 1 0 1 3)\<lparr>shutdown := True\<rparr>)"
proof -
  let ?a = "(init 1 0 1 3)\<lparr>shutdown := True\<rparr>"
  let ?b = "(init 1 1 1 3)\<lparr>shutdown := True\<rparr>"
  let ?s1 = "\<lparr>tank_queue = 0, healer_queue = 0, dps_queue = 0, dungeon_count = 1,
         dungeon_active = [True], parties_served = [1], total_time_served = [0],
         total_parties_formed = 1, total_players_added = 0, shutdown = True\<rparr>"
  let ?s2 = "\<lparr>tank_queue = 0, healer_queue = 0, dps_queue = 0, dungeon_count = 1,
         dungeon_active = [False], parties_served = [1], total_time_served = [5],
         total_parties_formed = 1, total_players_added = 0, shutdown = True\<rparr>"
  have a: "shutdown ?a \<and> \<not> canFormParty ?a"
    by (simp add: init_def canFormParty_sint)
  have b: "shutdown ?b \<and> canFormParty ?b \<and> 0 < length (dungeon_active ?b)
      \<and> 0 < length (parties_served ?b) \<and> sint (parties_served ?b ! 0) < INT_MAX"
    by (simp add: init_def canFormParty_sint INT_MAX_def)
  from a worker_stops_exactly_when [of 0 5 ?a]
  have 1: "dungeonInstance 0 5 Idle ?a = Inr (Stopped, [], ?a)" by blast
  from b worker_stops_exactly_when [of 0 5 ?b]
  obtain s' where e: "dungeonInstance 0 5 Idle ?b = Inr (Busy, [Cout_party_formed 0], s')"
    by blast
  then have "s' = ?s1"
    by (simp add: init_def dungeonInstance_enter_def formParty_def int_sub_def int_add_def
        in_range_def INT_MIN_def INT_MAX_def canFormParty_sint)
  with e have 2: "dungeonInstance 0 5 Idle ?b = Inr (Busy, [Cout_party_formed 0], ?s1)"
    by simp
  have r: "in_range (sint (0 :: int32) + sint (5 :: int32))"
    by (simp add: in_range_def INT_MIN_def INT_MAX_def)
  then have "0 < length (total_time_served ?s1) \<and> 0 < length (dungeon_active ?s1)
      \<and> in_range (sint (total_time_served ?s1 ! 0) + sint (5 :: int32))"
    by simp
  with worker_stops_exactly_when [of 0 5 ?s1]
  have "dungeonInstance 0 5 Busy ?s1 =
      Inr (Idle, [Cout_completed 0 5, Notify_all],
           ?s1\<lparr>total_time_served := (total_time_served ?s1)[0 := total_time_served ?s1 ! 0 + 5],
               dungeon_active := (dungeon_active ?s1)[0 := False]\<rparr>)"
    by blast
  then have 3: "dungeonInstance 0 5 Busy ?s1 = Inr (Idle, [Cout_completed 0 5, Notify_all], ?s2)"
    by simp
  from worker_stops_exactly_when [of 0 5 ?a]
  have 4: "dungeonInstance 0 5 Stopped ?a = Inr (Stopped, [], ?a)" by blast
  from a b 1 2 r 3 4 show ?thesis by blast
qed

text \<open>
  C6, as the code has it. \<^verbatim>\<open>addPlayersToQueue\<close> ends with one \<^verbatim>\<open>notify_all\<close>, and so do
  the step of a worker that completes a dungeon and the request for shutdown. The step
  that withdraws a party signals nothing: a withdrawal only lowers the queues, so it
  never makes \<^verbatim>\<open>canFormParty\<close> true, and no waiting worker could go on because of it.
\<close>

theorem broadcast_points:
  "(addPlayersToQueue tanks healers dps s = Inr (evs, s') \<longrightarrow> evs = [Cout_added tanks healers dps, Notify_all])
   \<and> (dungeonInstance_finish instance_id dungeon_time s = Inr (l2, evs2, s2) \<longrightarrow>
        evs2 = [Cout_completed instance_id dungeon_time, Notify_all])
   \<and> fst (startInstances_shutdown s) = [Notify_all]
   \<and> (dungeonInstance_enter instance_id s = Inr (l1, evs1, s1) \<longrightarrow> Notify_all \<notin> set evs1)
   \<and> (formParty s = Inr s3 \<and> canFormParty s3 \<longrightarrow> canFormParty s)"
  by (auto simp: startInstances_shutdown_def dest: addPlayersToQueue_Inr_eq finish_Inr enter_events formParty_not_enabling)

theorem broadcast_points_witness:
  "addPlayersToQueue 1 0 2 (init 1 1 1 3) =
     Inr ([Cout_added 1 0 2, Notify_all],
          \<lparr>tank_queue = 2, healer_queue = 1, dps_queue = 5, dungeon_count = 1,
           dungeon_active = [False], parties_served = [0], total_time_served = [0],
           total_parties_formed = 0, total_players_added = 3, shutdown = False\<rparr>)
   \<and> dungeonInstance_finish 0 5 (init 1 1 1 3) =
     Inr (Idle, [Cout_completed 0 5, Notify_all],
          \<lparr>tank_queue = 1, healer_queue = 1, dps_queue = 3, dungeon_count = 1,
           dungeon_active = [False], parties_served = [0], total_time_served = [5],
           total_parties_formed = 0, total_players_added = 0, shutdown = False\<rparr>)
   \<and> dungeonInstance_enter 0 (init 1 1 1 3) =
     Inr (Busy, [Cout_party_formed 0],
          \<lparr>tank_queue = 0, healer_queue = 0, dps_queue = 0, dungeon_count = 1,
           dungeon_active = [True], parties_served = [1], total_time_served = [0],
           total_parties_formed = 1, total_players_added = 0, shutdown = False\<rparr>)
   \<and> Notify_all \<notin> set [Cout_party_formed 0]
   \<and> formParty (init 1 2 2 6) =
     Inr \<lparr>tank_queue = 1, healer_queue = 1, dps_queue = 3, dungeon_count = 1,
          dungeon_active = [False], parties_served = [0], total_time_served = [0],
          total_parties_formed = 1, total_players_added = 0, shutdown = False\<rparr>
   \<and> canFormParty \<lparr>tank_queue = 1, healer_queue = 1, dps_queue = 3, dungeon_count = 1,
          dungeon_active = [False], parties_served = [0], total_time_served = [0],
          total_parties_formed = 1, total_players_added = 0, shutdown = False\<rparr>
   \<and> canFormParty (init 1 2 2 6)"
proof -
  let ?s = "init 1 1 1 3"
  let ?sa = "\<lparr>tank_queue = 2, healer_queue = 1, dps_queue = 5, dungeon_count = 1,
           dungeon_active = [False], parties_served = [0], total_time_served = [0],
           total_parties_formed = 0, total_players_added = 3, shutdown = False\<rparr>"
  let ?sf = "\<lparr>tank_queue = 1, healer_queue = 1, dps_queue = 3, dungeon_count = 1,
           dungeon_active = [False], parties_served = [0], total_time_served = [5],
           total_parties_formed = 0, total_players_added = 0, shutdown = False\<rparr>"
  let ?se = "\<lparr>tank_queue = 0, healer_queue = 0, dps_queue = 0, dungeon_count = 1,
           dungeon_active = [True], parties_served = [1], total_time_served = [0],
           total_parties_formed = 1, total_players_added = 0, shutdown = False\<rparr>"
  let ?s3 = "\<lparr>tank_queue = 1, healer_queue = 1, dps_queue = 3, dungeon_count = 1,
          dungeon_active = [False], parties_served = [0], total_time_served = [0],
          total_parties_formed = 1, total_players_added = 0, shutdown = False\<rparr>"
  have a: "addPlayersToQueue 1 0 2 ?s = Inr ([Cout_added 1 0 2, Notify_all], ?sa)"
    by code_simp
  have f: "dungeonInstance_finish 0 5 ?s = Inr (Idle, [Cout_completed 0 5, Notify_all], ?sf)"
    by code_simp
  have e: "dungeonInstance_enter 0 ?s = Inr (Busy, [Cout_party_formed 0], ?se)"
    by code_simp
  have w: "formParty (init 1 2 2 6) = Inr ?s3"
    by code_simp
  have c: "canFormParty ?s3"
    by (simp add: canFormParty_sint)
  from e broadcast_points [where instance_id = 0 and s = ?s and ?l1.0 = Busy
      and ?evs1.0 = "[Cout_party_formed 0]" and ?s1.0 = ?se]
  have n: "Notify_all \<notin> set [Cout_party_formed 0]" by blast
  from w c broadcast_points [where s = "init 1 2 2 6" and ?s3.0 = ?s3]
  have v: "canFormParty (init 1 2 2 6)" by blast
  from a f e n w c v show ?thesis by blast
qed

text \<open>
  C6 as the claim states it fails: the step of worker 0 that withdraws a party from a
  pool of one tank, one healer and three dps prints one line and signals nothing.
\<close>

theorem withdraw_without_broadcast:
  "dungeonInstance_enter 0 (init 1 1 1 3) =
     Inr (Busy, [Cout_party_formed 0],
          \<lparr>tank_queue = 0, healer_queue = 0, dps_queue = 0, dungeon_count = 1,
           dungeon_active = [True], parties_served = [1], total_time_served = [0],
           total_parties_formed = 1, total_players_added = 0, shutdown = False\<rparr>)
   \<and> Notify_all \<notin> set [Cout_party_formed 0]"
  by (simp add: init_def dungeonInstance_enter_def formParty_def int_sub_def int_add_def
      in_range_def INT_MIN_def INT_MAX_def canFormParty_sint)

text \<open>
  C7, as the code has it. \<open>parties_served\<close> of the worker goes up by one in the step
  that forms the party and marks the worker active, before the dungeon runs; that step
  leaves \<open>total_time_served\<close> alone. The duration is added to \<open>total_time_served\<close>
  in the step that completes the dungeon, which marks the worker inactive, takes it back
  to the head of its loop and leaves \<open>parties_served\<close> alone.
\<close>

theorem statistics_recorded:
  "(dungeonInstance_enter instance_id s = Inr (Busy, evs, s') \<longrightarrow>
      sint (parties_served s' ! instance_id) = sint (parties_served s ! instance_id) + 1
      \<and> (\<forall>j. j \<noteq> instance_id \<longrightarrow> parties_served s' ! j = parties_served s ! j)
      \<and> dungeon_active s' ! instance_id
      \<and> total_time_served s' = total_time_served s)
   \<and> (dungeonInstance_finish instance_id dungeon_time s = Inr (l, evs2, s2) \<longrightarrow>
      l = Idle
      \<and> sint (total_time_served s2 ! instance_id) = sint (total_time_served s ! instance_id) + sint dungeon_time
      \<and> (\<forall>j. j \<noteq> instance_id \<longrightarrow> total_time_served s2 ! j = total_time_served s ! j)
      \<and> \<not> dungeon_active s2 ! instance_id
      \<and> parties_served s2 = parties_served s)"
  using enter_statistics [of instance_id s evs s'] finish_statistics [of instance_id dungeon_time s l evs2 s2]
  by blast

theorem statistics_recorded_witness:
  "dungeonInstance_enter 0 (init 1 1 1 3) =
     Inr (Busy, [Cout_party_formed 0],
          \<lparr>tank_queue = 0, healer_queue = 0, dps_queue = 0, dungeon_count = 1,
           dungeon_active = [True], parties_served = [1], total_time_served = [0],
           total_parties_formed = 1, total_players_added = 0, shutdown = False\<rparr>)
   \<and> dungeonInstance_finish 0 5
        \<lparr>tank_queue = 0, healer_queue = 0, dps_queue = 0, dungeon_count = 1,
         dungeon_active = [True], parties_served = [1], total_time_served = [0],
         total_parties_formed = 1, total_players_added = 0, shutdown = False\<rparr> =
     Inr (Idle, [Cout_completed 0 5, Notify_all],
          \<lparr>tank_queue = 0, healer_queue = 0, dps_queue = 0, dungeon_count = 1,
           dungeon_active = [False], parties_served = [1], total_time_served = [5],
           total_parties_formed = 1, total_players_added = 0, shutdown = False\<rparr>)
   \<and> sint (1 :: int32) = sint (parties_served (init 1 1 1 3) ! 0) + 1
   \<and> sint (5 :: int32) = sint (0 :: int32) + sint (5 :: int32)"
proof -
  let ?se = "\<lparr>tank_queue = 0, healer_queue = 0, dps_queue = 0, dungeon_count = 1,
           dungeon_active = [True], parties_served = [1], total_time_served = [0],
           total_parties_formed = 1, total_players_added = 0, shutdown = False\<rparr>"
  let ?sf = "\<lparr>tank_queue = 0, healer_queue = 0, dps_queue = 0, dungeon_count = 1,
           dungeon_active = [False], parties_served = [1], total_time_served = [5],
           total_parties_formed = 1, total_players_added = 0, shutdown = False\<rparr>"
  have e: "dungeonInstance_enter 0 (init 1 1 1 3) = Inr (Busy, [Cout_party_formed 0], ?se)"
    by code_simp
  have f: "dungeonInstance_finish 0 5 ?se = Inr (Idle, [Cout_completed 0 5, Notify_all], ?sf)"
    by code_simp
  from e statistics_recorded [where instance_id = 0 and s = "init 1 1 1 3"
      and evs = "[Cout_party_formed 0]" and s' = ?se]
  have 1: "sint (1 :: int32) = sint (parties_served (init 1 1 1 3) ! 0) + 1" by simp
  from f statistics_recorded [where instance_id = 0 and dungeon_time = 5 and s = ?se and l = Idle
      and ?evs2.0 = "[Cout_completed 0 5, Notify_all]" and ?s2.0 = ?sf]
  have 2: "sint (5 :: int32) = sint (0 :: int32) + sint (5 :: int32)" by simp
  from e f 1 2 show ?thesis by blast
qed

text \<open>
  C7 as the claim states it fails: in the step that forms the party, before the dungeon
  has run, \<open>parties_served\<close> of worker 0 has already gone from 0 to 1.
\<close>

theorem parties_served_before_busy:
  "parties_served (init 1 1 1 3) = [0]
   \<and> dungeonInstance_enter 0 (init 1 1 1 3) =
     Inr (Busy, [Cout_party_formed 0],
          \<lparr>tank_queue = 0, healer_queue = 0, dps_queue = 0, dungeon_count = 1,
           dungeon_active = [True], parties_served = [1], total_time_served = [0],
           total_parties_formed = 1, total_players_added = 0, shutdown = False\<rparr>)"
  by (simp add: init_def dungeonInstance_enter_def formParty_def int_sub_def int_add_def
      in_range_def INT_MIN_def INT_MAX_def canFormParty_sint)



text \<open>
  C9. The class has one generator, the member \<^verbatim>\<open>gen\<close>. A worker draws from it in
  \<^verbatim>\<open>time_dist(gen)\<close>, between \<^verbatim>\<open>lock.unlock()\<close> and \<^verbatim>\<open>lock.lock()\<close>, the first thing
  it does at \<open>Busy\<close>; the producer draws from it before it takes the mutex. With two
  workers and a pool of two parties, worker 1 enters \<open>Busy\<close> while worker 0 is still
  there: both are in the stretch that draws from \<^verbatim>\<open>gen\<close>, and neither holds the mutex.
\<close>

theorem two_instances_busy_together:
  "dungeonInstance_enter 0 (init 2 2 2 6) =
     Inr (Busy, [Cout_party_formed 0],
          \<lparr>tank_queue = 1, healer_queue = 1, dps_queue = 3, dungeon_count = 2,
           dungeon_active = [True, False], parties_served = [1, 0], total_time_served = [0, 0],
           total_parties_formed = 1, total_players_added = 0, shutdown = False\<rparr>)
   \<and> dungeonInstance_enter 1
        \<lparr>tank_queue = 1, healer_queue = 1, dps_queue = 3, dungeon_count = 2,
         dungeon_active = [True, False], parties_served = [1, 0], total_time_served = [0, 0],
         total_parties_formed = 1, total_players_added = 0, shutdown = False\<rparr> =
     Inr (Busy, [Cout_party_formed 1],
          \<lparr>tank_queue = 0, healer_queue = 0, dps_queue = 0, dungeon_count = 2,
           dungeon_active = [True, True], parties_served = [1, 1], total_time_served = [0, 0],
           total_parties_formed = 2, total_players_added = 0, shutdown = False\<rparr>)"
proof -
  let ?s1 = "\<lparr>tank_queue = 1, healer_queue = 1, dps_queue = 3, dungeon_count = 2,
           dungeon_active = [True, False], parties_served = [1, 0], total_time_served = [0, 0],
           total_parties_formed = 1, total_players_added = 0, shutdown = False\<rparr>"
  let ?s2 = "\<lparr>tank_queue = 0, healer_queue = 0, dps_queue = 0, dungeon_count = 2,
           dungeon_active = [True, True], parties_served = [1, 1], total_time_served = [0, 0],
           total_parties_formed = 2, total_players_added = 0, shutdown = False\<rparr>"
  have 1: "dungeonInstance_enter 0 (init 2 2 2 6) = Inr (Busy, [Cout_party_formed 0], ?s1)"
    by code_simp
  have 2: "dungeonInstance_enter 1 ?s1 = Inr (Busy, [Cout_party_formed 1], ?s2)"
    by code_simp
  from 1 2 show ?thesis by (intro conjI)
qed

text \<open>
  C10. \<^verbatim>\<open>formParty\<close> and \<^verbatim>\<open>addPlayersToQueue\<close> leave the workers' flags and statistics
  and the shutdown flag as they were. \<^verbatim>\<open>formParty\<close> leaves \<open>total_players_added\<close>;
  \<^verbatim>\<open>addPlayersToQueue\<close> leaves \<open>total_parties_formed\<close> and adds to
  \<open>total_players_added\<close> the sum of its three arguments, which is their sum as integers.
\<close>

theorem frame:
  "(formParty s = Inr s' \<longrightarrow>
      dungeon_active s' = dungeon_active s \<and> parties_served s' = parties_served s
      \<and> total_time_served s' = total_time_served s \<and> shutdown s' = shutdown s
      \<and> total_players_added s' = total_players_added s)
   \<and> (addPlayersToQueue tanks healers dps s = Inr (evs, s'') \<longrightarrow>
      dungeon_active s'' = dungeon_active s \<and> parties_served s'' = parties_served s
      \<and> total_time_served s'' = total_time_served s \<and> shutdown s'' = shutdown s
      \<and> total_parties_formed s'' = total_parties_formed s
      \<and> total_players_added s'' = total_players_added s + (tanks + healers + dps)
      \<and> sint (tanks + healers + dps) = sint tanks + sint healers + sint dps)"
  using formParty_frame [of s s'] addPlayersToQueue_frame [of tanks healers dps s evs s'']
  by blast

theorem frame_witness:
  "formParty (init 1 1 1 3) =
     Inr \<lparr>tank_queue = 0, healer_queue = 0, dps_queue = 0, dungeon_count = 1,
          dungeon_active = [False], parties_served = [0], total_time_served = [0],
          total_parties_formed = 1, total_players_added = 0, shutdown = False\<rparr>
   \<and> addPlayersToQueue 1 0 2 (init 1 1 1 3) =
     Inr ([Cout_added 1 0 2, Notify_all],
          \<lparr>tank_queue = 2, healer_queue = 1, dps_queue = 5, dungeon_count = 1,
           dungeon_active = [False], parties_served = [0], total_time_served = [0],
           total_parties_formed = 0, total_players_added = 3, shutdown = False\<rparr>)
   \<and> dungeon_active (init 1 1 1 3) = [False] \<and> parties_served (init 1 1 1 3) = [0]
   \<and> total_time_served (init 1 1 1 3) = [0] \<and> \<not> shutdown (init 1 1 1 3)
   \<and> total_parties_formed (init 1 1 1 3) = 0 \<and> total_players_added (init 1 1 1 3) = 0"
proof -
  let ?s1 = "\<lparr>tank_queue = 0, healer_queue = 0, dps_queue = 0, dungeon_count = 1,
          dungeon_active = [False], parties_served = [0], total_time_served = [0],
          total_parties_formed = 1, total_players_added = 0, shutdown = False\<rparr>"
  let ?s2 = "\<lparr>tank_queue = 2, healer_queue = 1, dps_queue = 5, dungeon_count = 1,
           dungeon_active = [False], parties_served = [0], total_time_served = [0],
           total_parties_formed = 0, total_players_added = 3, shutdown = False\<rparr>"
  have f: "formParty (init 1 1 1 3) = Inr ?s1"
    by code_simp
  have a: "addPlayersToQueue 1 0 2 (init 1 1 1 3) = Inr ([Cout_added 1 0 2, Notify_all], ?s2)"
    by code_simp
  from f a frame [where s = "init 1 1 1 3" and s' = ?s1 and tanks = 1 and healers = 0 and dps = 2
      and evs = "[Cout_added 1 0 2, Notify_all]" and s'' = ?s2]
  show ?thesis by (simp add: init_def)
qed

end
